theory Spec2Isabelle
  imports Main "HOL-Library.List_Lexorder" "HOL-Library.Product_Lexorder"
    "HOL-Library.Multiset" "HOL-Library.Code_Target_Nat"
begin

section \<open>Python strings\<close>

text \<open>
  A Python \<open>str\<close> is a sequence of Unicode code points; it is modelled as the list of
  these code points. \<open>str\<close> turns an ASCII literal into such a list. The arrow of the
  pull request lines is the code point U+2192.
\<close>

type_synonym pystr = "nat list"

definition str :: "string \<Rightarrow> pystr" where
  "str s = map of_char s"

definition arrow :: nat where
  "arrow = 8594"

text \<open>
  What Python looks up in its Unicode database for a character beyond ASCII is not written
  out: the database is a parameter of the model. \<open>isalnum_u\<close> decides whether a code point
  from 128 on is alphanumeric (it is consulted by \<open>\b\<close>), \<open>lower_u\<close> is \<open>str.lower\<close>
  on a string that holds such a code point. On ASCII both are written out below.
\<close>

record unicode_db =
  isalnum_u :: "nat \<Rightarrow> bool"
  lower_u :: "pystr \<Rightarrow> pystr"

definition ascii_db :: unicode_db where
  "ascii_db = \<lparr> isalnum_u = (\<lambda>c. False), lower_u = (\<lambda>s. s) \<rparr>"

definition isspace :: "nat \<Rightarrow> bool" where
  \<comment> \<open>\<open>str.isspace\<close> on one character, which is also what \<open>\s\<close> matches in a \<open>str\<close> pattern\<close>
  "isspace c \<longleftrightarrow>
     (9 \<le> c \<and> c \<le> 13) \<or> (28 \<le> c \<and> c \<le> 32) \<or> c = 133 \<or> c = 160 \<or> c = 5760 \<or>
     (8192 \<le> c \<and> c \<le> 8202) \<or> c = 8232 \<or> c = 8233 \<or> c = 8239 \<or> c = 8287 \<or> c = 12288"

definition strip :: "pystr \<Rightarrow> pystr" where
  "strip s = rev (dropWhile isspace (rev (dropWhile isspace s)))"

definition is_linebreak :: "nat \<Rightarrow> bool" where
  \<comment> \<open>the line boundaries of \<open>str.splitlines\<close>; \<open>\r\n\<close> counts as one\<close>
  "is_linebreak c \<longleftrightarrow>
     (10 \<le> c \<and> c \<le> 13) \<or> (28 \<le> c \<and> c \<le> 30) \<or> c = 133 \<or> c = 8232 \<or> c = 8233"

fun splitlines_from :: "pystr \<Rightarrow> pystr \<Rightarrow> pystr list" where
  "splitlines_from cur [] = (if cur = [] then [] else [cur])"
| "splitlines_from cur [c] = (if is_linebreak c then [cur] else [cur @ [c]])"
| "splitlines_from cur (c # d # cs) =
     (if c = 13 \<and> d = 10 then cur # splitlines_from [] cs
      else if is_linebreak c then cur # splitlines_from [] (d # cs)
      else splitlines_from (cur @ [c]) (d # cs))"

definition splitlines :: "pystr \<Rightarrow> pystr list" where
  "splitlines s = splitlines_from [] s"

definition ascii_lower :: "nat \<Rightarrow> nat" where
  "ascii_lower c = (if 65 \<le> c \<and> c \<le> 90 then c + 32 else c)"

definition lower :: "unicode_db \<Rightarrow> pystr \<Rightarrow> pystr" where
  "lower db s = (if list_all (\<lambda>c. c < 128) s then map ascii_lower s else lower_u db s)"

fun startswith :: "pystr \<Rightarrow> pystr \<Rightarrow> bool" where
  "startswith s [] = True"
| "startswith [] (p # ps) = False"
| "startswith (c # cs) (p # ps) = (c = p \<and> startswith cs ps)"

fun contains :: "pystr \<Rightarrow> pystr \<Rightarrow> bool" where
  \<comment> \<open>\<open>contains a b\<close> is Python's \<open>a in b\<close> on strings\<close>
  "contains a [] = (a = [])"
| "contains a (c # cs) = (startswith (c # cs) a \<or> contains a cs)"

section \<open>Dictionaries\<close>

text \<open>
  A Python \<open>dict\<close> keeps its keys in insertion order, and the loops of the script run over
  them in that order: it is an association list without repeated keys. Storing under a key
  that is there keeps the key's place; a new key goes to the end.
\<close>

type_synonym ('k, 'v) dict = "('k \<times> 'v) list"

fun dict_set :: "('k, 'v) dict \<Rightarrow> 'k \<Rightarrow> 'v \<Rightarrow> ('k, 'v) dict" where
  "dict_set [] k v = [(k, v)]"
| "dict_set ((k', v') # d) k v = (if k' = k then (k, v) # d else (k', v') # dict_set d k v)"

definition keys :: "('k, 'v) dict \<Rightarrow> 'k list" where
  "keys d = map fst d"

section \<open>Regular expressions\<close>

text \<open>
  The patterns of the script use literals, \<open>.\<close>, character classes, \<open>\s\<close>, \<open>\b\<close>,
  greedy repetition and groups. \<open>Rep m n r\<close> is \<open>r{m,n}\<close>, with \<open>n = None\<close> for no upper
  bound; \<open>Grp i r\<close> is the capturing group number \<open>i\<close> (Python numbers the groups by
  their opening parenthesis). A class is the list of its ranges.
\<close>

datatype regex =
    Eps
  | Chr nat
  | Dot
  | Cls "(nat \<times> nat) list"
  | Spc
  | WordB
  | Seq regex regex
  | Rep nat "nat option" regex
  | Grp nat regex

text \<open>
  A matcher state: the character before the current position (\<open>None\<close> at the start of
  the string), the text still to be matched, and the groups captured so far.
\<close>

type_synonym mstate = "nat option \<times> pystr \<times> (nat \<times> pystr) list"

definition in_class :: "(nat \<times> nat) list \<Rightarrow> nat \<Rightarrow> bool" where
  "in_class rs c = list_ex (\<lambda>(lo, hi). lo \<le> c \<and> c \<le> hi) rs"

definition is_word :: "unicode_db \<Rightarrow> nat \<Rightarrow> bool" where
  \<comment> \<open>\<open>\w\<close>: alphanumeric or underscore\<close>
  "is_word db c =
     (if c < 128 then (48 \<le> c \<and> c \<le> 57) \<or> (65 \<le> c \<and> c \<le> 90) \<or> (97 \<le> c \<and> c \<le> 122) \<or> c = 95
      else isalnum_u db c)"

definition word_before :: "unicode_db \<Rightarrow> nat option \<Rightarrow> bool" where
  "word_before db p = (case p of None \<Rightarrow> False | Some c \<Rightarrow> is_word db c)"

definition word_after :: "unicode_db \<Rightarrow> pystr \<Rightarrow> bool" where
  "word_after db s = (case s of [] \<Rightarrow> False | c # _ \<Rightarrow> is_word db c)"

definition step_if :: "(nat \<Rightarrow> bool) \<Rightarrow> mstate \<Rightarrow> mstate list" where
  "step_if P st =
     (case st of (p, s, g) \<Rightarrow>
        (case s of [] \<Rightarrow> [] | c # cs \<Rightarrow> if P c then [(Some c, cs, g)] else []))"

definition rest :: "mstate \<Rightarrow> pystr" where
  "rest st = fst (snd st)"

definition set_group :: "nat \<Rightarrow> pystr \<Rightarrow> mstate \<Rightarrow> mstate" where
  \<comment> \<open>the group is the text between where it was entered (\<open>s\<close> was left then) and now\<close>
  "set_group i s st =
     (case st of (p', s', g') \<Rightarrow> (p', s', (i, take (length s - length s') s) # g'))"

text \<open>
  \<open>matches db r st\<close> lists every way \<open>r\<close> can match at \<open>st\<close>, in the order in which
  Python's backtracking matcher tries them: a greedy repetition tries one more round
  before it tries to stop. The first element is the match Python reports. A round of a
  repetition that consumes nothing is dropped (no pattern of the script has one).
\<close>

function matches :: "unicode_db \<Rightarrow> regex \<Rightarrow> mstate \<Rightarrow> mstate list" where
  "matches db Eps st = [st]"
| "matches db (Chr c) st = step_if (\<lambda>x. x = c) st"
| "matches db Dot st = step_if (\<lambda>x. x \<noteq> 10) st"
| "matches db (Cls rs) st = step_if (in_class rs) st"
| "matches db Spc st = step_if isspace st"
| "matches db WordB st =
     (if word_before db (fst st) \<noteq> word_after db (rest st) then [st] else [])"
| "matches db (Seq a b) st = concat (map (matches db b) (matches db a st))"
| "matches db (Rep m n r) st =
     (if n = Some 0 then [st]
      else concat (map (\<lambda>st'. if length (rest st') < length (rest st)
                                then matches db (Rep (m - 1) (map_option (\<lambda>k. k - 1) n) r) st'
                                else [])
                       (matches db r st))
           @ (if m = 0 then [st] else []))"
| "matches db (Grp i r) st = map (set_group i (rest st)) (matches db r st)"
  by pat_completeness auto
termination
  by (relation "measures [\<lambda>(db, r, st). size r, \<lambda>(db, r, st). length (rest st)]") auto

definition re_match :: "unicode_db \<Rightarrow> regex \<Rightarrow> pystr \<Rightarrow> (nat \<times> pystr) list option" where
  \<comment> \<open>\<open>re.match\<close>: a match at the start of the string, which need not reach its end\<close>
  "re_match db r s =
     (case matches db r (None, s, []) of [] \<Rightarrow> None | (p, s', g) # _ \<Rightarrow> Some g)"

definition group :: "(nat \<times> pystr) list \<Rightarrow> nat \<Rightarrow> pystr" where
  \<comment> \<open>the groups read by the script take part in every match of their pattern\<close>
  "group g i = (case map_of g i of None \<Rightarrow> [] | Some s \<Rightarrow> s)"

definition lit :: "string \<Rightarrow> regex" where
  "lit s = foldr (\<lambda>c r. Seq (Chr (of_char c)) r) s Eps"

definition star :: "regex \<Rightarrow> regex" where
  "star r = Rep 0 None r"

definition plus :: "regex \<Rightarrow> regex" where
  "plus r = Rep 1 None r"

definition opt :: "regex \<Rightarrow> regex" where
  "opt r = Rep 0 (Some 1) r"

definition seqs :: "regex list \<Rightarrow> regex" where
  "seqs rs = foldr Seq rs Eps"

section \<open>The script\<close>

subsection \<open>Patterns\<close>

definition ch :: "char \<Rightarrow> nat \<times> nat" where
  "ch c = (of_char c, of_char c)"

definition rng :: "char \<Rightarrow> char \<Rightarrow> nat \<times> nat" where
  "rng a b = (of_char a, of_char b)"

definition digit :: regex where
  "digit = Cls [rng CHR ''0'' CHR ''9'']"

definition version_regex :: "nat \<Rightarrow> regex" where
  \<comment> \<open>\<open>v?([0-9]+(?:\.[0-9]+){0,2})\<close>, its group being number \<open>i\<close> of the whole pattern\<close>
  "version_regex i =
     Seq (opt (Chr (of_char CHR ''v'')))
         (Grp i (Seq (plus digit) (Rep 0 (Some 2) (Seq (Chr (of_char CHR ''.'')) (plus digit)))))"

definition url_regex :: regex where
  \<comment> \<open>\<open>[-a-zA-Z0-9@:%._\+~#=]{1,256}\.[a-zA-Z0-9()]{1,6}/\b([-a-zA-Z0-9()@:%_\+.~#?&\/=]*)\<close>\<close>
  "url_regex = seqs
     [Rep 1 (Some 256)
        (Cls [ch CHR ''-'', rng CHR ''a'' CHR ''z'', rng CHR ''A'' CHR ''Z'', rng CHR ''0'' CHR ''9'',
              ch CHR ''@'', ch CHR '':'', ch CHR ''%'', ch CHR ''.'', ch CHR ''_'', ch CHR ''+'',
              ch CHR ''~'', ch CHR ''#'', ch CHR ''='']),
      Chr (of_char CHR ''.''),
      Rep 1 (Some 6)
        (Cls [rng CHR ''a'' CHR ''z'', rng CHR ''A'' CHR ''Z'', rng CHR ''0'' CHR ''9'',
              ch CHR ''('', ch CHR '')'']),
      Chr (of_char CHR ''/''),
      WordB,
      Grp 1 (star
        (Cls [ch CHR ''-'', rng CHR ''a'' CHR ''z'', rng CHR ''A'' CHR ''Z'', rng CHR ''0'' CHR ''9'',
              ch CHR ''('', ch CHR '')'', ch CHR ''@'', ch CHR '':'', ch CHR ''%'', ch CHR ''_'',
              ch CHR ''+'', ch CHR ''.'', ch CHR ''~'', ch CHR ''#'', ch CHR ''?'', ch CHR ''&'',
              ch CHR ''/'', ch CHR ''='']))]"

definition changelog_item_regex :: regex where
  \<comment> \<open>\<open>(?:-\s+)Update `([a-zA-Z0-9_\-/]+)`(?: hook)? to \<close> followed by the version pattern\<close>
  "changelog_item_regex = seqs
     [Chr (of_char CHR ''-''), plus Spc, lit ''Update `'',
      Grp 1 (plus (Cls [rng CHR ''a'' CHR ''z'', rng CHR ''A'' CHR ''Z'', rng CHR ''0'' CHR ''9'',
                        ch CHR ''_'', ch CHR ''-'', ch CHR ''/''])),
      Chr (of_char CHR 0x60), opt (lit '' hook''), lit '' to '', version_regex 2]"

definition hook_line_regex :: regex where
  \<comment> \<open>\<open>-\s+\[(.*)\].*\<close>\<close>
  "hook_line_regex = seqs
     [Chr (of_char CHR ''-''), plus Spc, Chr (of_char CHR ''[''), Grp 1 (star Dot),
      Chr (of_char CHR '']''), star Dot]"

definition hook_label_regex :: regex where
  \<comment> \<open>the URL pattern, \<open>\s*:\s*\<close>, the version pattern, \<open>\s+\<close>, the arrow, \<open>\s+\<close>,
      the version pattern\<close>
  "hook_label_regex = seqs
     [url_regex, star Spc, Chr (of_char CHR '':''), star Spc, version_regex 2,
      plus Spc, Chr arrow, plus Spc, version_regex 3]"

subsection \<open>Cleaning a version string\<close>

definition clean_version_str :: "pystr \<Rightarrow> pystr" where
  "clean_version_str version =
     (if startswith version (str ''v'') \<or> startswith version (str ''V'') then drop 1 version
      else version)"

subsection \<open>The changelog\<close>

text \<open>
  \<open>keepachangelog.to_dict\<close> gives a dictionary from version keys to entries. An entry is
  itself a dictionary: under the key \<open>metadata\<close> it holds a dictionary whose values are
  strings or \<open>None\<close>, and under the name of each section the list of the section's lines.
\<close>

datatype entry_value =
    Metadata "(pystr, pystr option) dict"
  | Lines "pystr list"

type_synonym entry = "(pystr, entry_value) dict"

type_synonym changelog = "(pystr, entry) dict"

datatype error =
    KeyError pystr
  | IndexError
  | AttributeError
  | TypeError
  | StopIteration
  | InvalidSemanticVersion pystr

definition bind :: "error + 'a \<Rightarrow> ('a \<Rightarrow> error + 'b) \<Rightarrow> error + 'b" where
  "bind m f = (case m of Inl e \<Rightarrow> Inl e | Inr x \<Rightarrow> f x)"

fun traverse :: "('a \<Rightarrow> error + 'b) \<Rightarrow> 'a list \<Rightarrow> error + 'b list" where
  \<comment> \<open>a list comprehension whose body may raise\<close>
  "traverse f [] = Inr []"
| "traverse f (x # xs) = bind (f x) (\<lambda>y. bind (traverse f xs) (\<lambda>ys. Inr (y # ys)))"

definition getitem :: "(pystr, 'v) dict \<Rightarrow> pystr \<Rightarrow> error + 'v" where
  \<comment> \<open>\<open>d[k]\<close>\<close>
  "getitem d k = (case map_of d k of None \<Rightarrow> Inl (KeyError k) | Some v \<Rightarrow> Inr v)"

definition metadata_item :: "entry \<Rightarrow> pystr \<Rightarrow> error + pystr option" where
  \<comment> \<open>\<open>v['metadata'][k]\<close>; a list is not indexed by a string\<close>
  "metadata_item v k =
     bind (getitem v (str ''metadata''))
          (\<lambda>m. case m of Metadata d \<Rightarrow> getitem d k | Lines items \<Rightarrow> Inl TypeError)"

definition iterate :: "entry_value \<Rightarrow> pystr list" where
  \<comment> \<open>what a \<open>for\<close> loop over the value runs through: the lines of a list, the keys of a
      dictionary\<close>
  "iterate value = (case value of Lines items \<Rightarrow> items | Metadata d \<Rightarrow> keys d)"

subsection \<open>Semantic versions\<close>

text \<open>
  Modelled from the spec: \<open>keepachangelog.to_sorted_semantic\<close>, a function of the
  changelog library, which is not part of the repository. The spec has it sort the version
  strings "in semantic-version order", the versions being "well-formed semantic versions":
  \<open>MAJOR.MINOR.PATCH\<close>, then optionally \<open>-\<close> and a pre-release, then optionally \<open>+\<close>
  and build metadata, the numbers without leading zeros. A string of another shape is
  refused. The order is the precedence of
  semantic versioning: the three numbers in turn; a pre-release comes before its release;
  two pre-releases compare by their dot-separated identifiers, a numeric one by its value
  and before any other, the others as strings. Build metadata does not count. Versions
  of equal precedence keep their order (Python's sort is stable).
\<close>

definition is_digit :: "nat \<Rightarrow> bool" where
  "is_digit c \<longleftrightarrow> 48 \<le> c \<and> c \<le> 57"

definition int_of :: "pystr \<Rightarrow> nat" where
  "int_of s = foldl (\<lambda>n c. 10 * n + (c - 48)) 0 s"

fun split_on :: "nat \<Rightarrow> pystr \<Rightarrow> pystr \<Rightarrow> pystr list" where
  \<comment> \<open>\<open>s.split(c)\<close>, \<open>cur\<close> being the piece read so far\<close>
  "split_on c cur [] = [cur]"
| "split_on c cur (x # xs) = (if x = c then cur # split_on c [] xs else split_on c (cur @ [x]) xs)"

fun partition_at :: "nat \<Rightarrow> pystr \<Rightarrow> pystr \<times> pystr option" where
  \<comment> \<open>the text before the first \<open>c\<close>, and the text after it when there is a \<open>c\<close>\<close>
  "partition_at c [] = ([], None)"
| "partition_at c (x # xs) =
     (if x = c then ([], Some xs)
      else (case partition_at c xs of (a, b) \<Rightarrow> (x # a, b)))"

definition is_numeric :: "pystr \<Rightarrow> bool" where
  "is_numeric s \<longleftrightarrow> s \<noteq> [] \<and> list_all is_digit s"

definition is_number :: "pystr \<Rightarrow> bool" where
  \<comment> \<open>digits, without a leading zero\<close>
  "is_number s \<longleftrightarrow> is_numeric s \<and> (case s of c # _ # _ \<Rightarrow> c \<noteq> 48 | _ \<Rightarrow> True)"

definition is_identifier :: "pystr \<Rightarrow> bool" where
  "is_identifier s \<longleftrightarrow>
     s \<noteq> [] \<and> list_all (\<lambda>c. is_digit c \<or> (65 \<le> c \<and> c \<le> 90) \<or> (97 \<le> c \<and> c \<le> 122) \<or> c = 45) s"

definition is_prerelease_identifier :: "pystr \<Rightarrow> bool" where
  "is_prerelease_identifier s \<longleftrightarrow> is_identifier s \<and> (is_numeric s \<longrightarrow> is_number s)"

type_synonym prerelease_key = "nat \<times> (nat \<times> nat \<times> pystr) list"

type_synonym semantic_key = "nat \<times> nat \<times> nat \<times> prerelease_key"

definition identifier_key :: "pystr \<Rightarrow> nat \<times> nat \<times> pystr" where
  "identifier_key s = (if is_numeric s then (0, int_of s, []) else (1, 0, s))"

definition prerelease_key :: "pystr option \<Rightarrow> prerelease_key" where
  "prerelease_key p =
     (case p of None \<Rightarrow> (1, []) | Some s \<Rightarrow> (0, map identifier_key (split_on 46 [] s)))"

definition to_semantic :: "pystr \<Rightarrow> error + semantic_key" where
  "to_semantic version =
     (case partition_at 43 version of (v, build) \<Rightarrow>
      case partition_at 45 v of (core, pre) \<Rightarrow>
        (case split_on 46 [] core of
           [a, b, c] \<Rightarrow>
             if is_number a \<and> is_number b \<and> is_number c
                \<and> (case pre of None \<Rightarrow> True
                    | Some s \<Rightarrow> list_all is_prerelease_identifier (split_on 46 [] s))
                \<and> (case build of None \<Rightarrow> True
                    | Some s \<Rightarrow> list_all is_identifier (split_on 46 [] s))
             then Inr (int_of a, int_of b, int_of c, prerelease_key pre)
             else Inl (InvalidSemanticVersion version)
         | _ \<Rightarrow> Inl (InvalidSemanticVersion version)))"

definition to_sorted_semantic :: "pystr list \<Rightarrow> error + (pystr \<times> semantic_key) list" where
  "to_sorted_semantic versions =
     bind (traverse (\<lambda>v. bind (to_semantic v) (\<lambda>k. Inr (v, k)))
             (filter (\<lambda>v. v \<noteq> str ''unreleased'') versions))
          (\<lambda>vs. Inr (sort_key snd vs))"

subsection \<open>Loading the changelog\<close>

definition compare_url :: "pystr \<Rightarrow> pystr" where
  "compare_url version_name =
     str ''https://github.com/Takishima/flake8-secure-coding-standard/compare/''
       @ version_name @ str ''...HEAD''"

definition str_value :: "pystr option \<Rightarrow> error + pystr" where
  \<comment> \<open>a metadata value passed to \<open>clean_version_str\<close>: \<open>None\<close> has no \<open>startswith\<close>\<close>
  "str_value v = (case v of None \<Rightarrow> Inl AttributeError | Some s \<Rightarrow> Inr s)"

definition versions_of :: "changelog \<Rightarrow> error + pystr option list" where
  \<comment> \<open>the list \<open>versions\<close>: the metadata version of every entry, but for \<open>unreleased\<close>\<close>
  "versions_of changelog =
     bind (traverse (\<lambda>(k, v). metadata_item v (str ''version'')) changelog)
          (\<lambda>vs. Inr (filter (\<lambda>v. v \<noteq> Some (str ''unreleased'')) vs))"

definition unreleased_entry :: "pystr \<Rightarrow> entry" where
  \<comment> \<open>the entry put in front of a changelog without one; \<open>release_data\<close> is the key the
      script writes\<close>
  "unreleased_entry version_name =
     [(str ''metadata'',
       Metadata [(str ''release_data'', None),
                 (str ''url'', Some (compare_url version_name)),
                 (str ''version'', Some (str ''unreleased''))])]"

definition get_changelog :: "changelog \<Rightarrow> error + changelog" where
  "get_changelog changelog =
     (if str ''unreleased'' \<in> set (keys changelog) then Inr changelog
      else
        bind (versions_of changelog) (\<lambda>version_values.
        bind (traverse str_value version_values) (\<lambda>versions.
        bind (to_sorted_semantic (map clean_version_str versions)) (\<lambda>sorted_versions.
        bind (case sorted_versions of [] \<Rightarrow> Inl IndexError
              | _ \<Rightarrow> Inr (fst (last sorted_versions))) (\<lambda>last_version.
        bind (case filter (contains last_version) versions of
                [] \<Rightarrow> Inl StopIteration | version # _ \<Rightarrow> Inr version) (\<lambda>version_name.
        Inr ((str ''unreleased'', unreleased_entry version_name) # changelog)))))))"

subsection \<open>Reading a section of the changelog\<close>

fun parse_items :: "unicode_db \<Rightarrow> pystr list \<Rightarrow> pystr list \<times> (pystr, pystr) dict
                    \<Rightarrow> pystr list \<times> (pystr, pystr) dict" where
  \<comment> \<open>the loop of \<open>parse_changelog\<close>, on \<open>(new_content, hook_data)\<close>\<close>
  "parse_items db [] (new_content, hook_data) = (new_content, hook_data)"
| "parse_items db (item # items) (new_content, hook_data) =
     (case re_match db changelog_item_regex item of
        Some hook_match \<Rightarrow>
          parse_items db items
            (new_content, dict_set hook_data (group hook_match 1) (group hook_match 2))
      | None \<Rightarrow>
          if item \<noteq> [] then parse_items db items (new_content @ [item], hook_data)
          else parse_items db items (new_content, hook_data))"

definition setdefault :: "('k, 'v) dict \<Rightarrow> 'k \<Rightarrow> 'v \<Rightarrow> ('k, 'v) dict \<times> 'v" where
  \<comment> \<open>\<open>d.setdefault(k, v)\<close>: the dictionary afterwards and the value returned\<close>
  "setdefault d k v = (case map_of d k of None \<Rightarrow> (d @ [(k, v)], v) | Some x \<Rightarrow> (d, x))"

definition parse_changelog ::
  "unicode_db \<Rightarrow> changelog \<Rightarrow> pystr
     \<Rightarrow> error + (changelog \<times> pystr list \<times> (pystr, pystr) dict)" where
  \<comment> \<open>returns the changelog too, since \<open>setdefault\<close> may add the section to it\<close>
  "parse_changelog db changelog_dict target_section =
     bind (getitem changelog_dict (str ''unreleased'')) (\<lambda>unreleased.
     case setdefault unreleased target_section (Lines []) of (unreleased', items) \<Rightarrow>
       Inr (dict_set changelog_dict (str ''unreleased'') unreleased',
            parse_items db (iterate items) ([], [])))"

subsection \<open>Reading the body of the pull request\<close>

definition pr_body_marker_start :: pystr where
  "pr_body_marker_start = str ''<!--pre-commit.ci start-->''"

definition pr_body_marker_end :: pystr where
  "pr_body_marker_end = str ''<!--pre-commit.ci end-->''"

fun parse_lines :: "unicode_db \<Rightarrow> pystr list \<Rightarrow> bool \<Rightarrow> (pystr, pystr) dict
                    \<Rightarrow> (pystr, pystr) dict" where
  \<comment> \<open>the loop of \<open>parse_pull_request_body\<close>, on \<open>skip\<close> and \<open>new_hook_data\<close>\<close>
  "parse_lines db [] skip new_hook_data = new_hook_data"
| "parse_lines db (line # lines) skip new_hook_data =
     (if strip line = pr_body_marker_start then parse_lines db lines False new_hook_data
      else if skip then parse_lines db lines skip new_hook_data
      else if strip line = pr_body_marker_end then new_hook_data
      else
        (case re_match db hook_line_regex (strip line) of
           None \<Rightarrow> parse_lines db lines skip new_hook_data
         | Some hook_line \<Rightarrow>
             (case re_match db hook_label_regex (group hook_line 1) of
                None \<Rightarrow> parse_lines db lines skip new_hook_data
              | Some hook_match \<Rightarrow>
                  parse_lines db lines skip
                    (dict_set new_hook_data (group hook_match 1) (group hook_match 3)))))"

definition parse_pull_request_body :: "unicode_db \<Rightarrow> pystr \<Rightarrow> (pystr, pystr) dict" where
  "parse_pull_request_body db pr_body = parse_lines db (splitlines pr_body) True []"

subsection \<open>Merging and writing\<close>

fun merge_hooks :: "unicode_db \<Rightarrow> (pystr, pystr) dict \<Rightarrow> (pystr, pystr) dict
                    \<Rightarrow> (pystr, pystr) dict" where
  \<comment> \<open>the loop over \<open>hook_data.items()\<close>; \<open>any\<close> runs over the keys that
      \<open>new_hook_data\<close> has at that moment\<close>
  "merge_hooks db [] new_hook_data = new_hook_data"
| "merge_hooks db ((hook, version) # hook_data) new_hook_data =
     merge_hooks db hook_data
       (if \<not> list_ex (\<lambda>new_hook. contains (lower db hook) (lower db new_hook)) (keys new_hook_data)
        then dict_set new_hook_data hook version
        else new_hook_data)"

definition the_value :: "(pystr, pystr) dict \<Rightarrow> pystr \<Rightarrow> pystr" where
  \<comment> \<open>\<open>new_hook_data[hook_name]\<close> for a key of \<open>new_hook_data\<close>\<close>
  "the_value d k = (case map_of d k of None \<Rightarrow> [] | Some v \<Rightarrow> v)"

definition update_line :: "pystr \<Rightarrow> pystr \<Rightarrow> pystr" where
  "update_line hook_name version =
     str ''-   Update `'' @ hook_name @ str ''` hook to v'' @ version"

definition update_lines :: "unicode_db \<Rightarrow> (pystr, pystr) dict \<Rightarrow> pystr list" where
  \<comment> \<open>one line for each key of \<open>sorted(new_hook_data, key=str.lower)\<close>\<close>
  "update_lines db new_hook_data =
     map (\<lambda>hook_name. update_line hook_name (the_value new_hook_data hook_name))
         (sort_key (lower db) (keys new_hook_data))"

text \<open>
  \<open>udpate_changelog_from_pr_body\<close> (the name is the script's) ends by writing the file:
  \<open>keepachangelog.from_dict\<close> and \<open>mdformat.text\<close> turn the dictionary into text. The
  model returns the dictionary that is handed to them.
\<close>

definition udpate_changelog_from_pr_body ::
  "unicode_db \<Rightarrow> changelog \<Rightarrow> pystr \<Rightarrow> pystr \<Rightarrow> error + changelog" where
  "udpate_changelog_from_pr_body db changelog_file pr_body target_section =
     bind (get_changelog changelog_file) (\<lambda>changelog.
     bind (parse_changelog db changelog target_section) (\<lambda>(changelog, new_content, hook_data).
     let new_hook_data = merge_hooks db hook_data (parse_pull_request_body db pr_body);
         new_content = new_content @ update_lines db new_hook_data
     in bind (getitem changelog (str ''unreleased'')) (\<lambda>unreleased.
        Inr (dict_set changelog (str ''unreleased'')
               (dict_set unreleased target_section (Lines new_content))))))"

text \<open>
  The command line, as \<open>argparse\<close> hands it over: \<open>path\<close> (default \<open>CHANGELOG.md\<close>),
  \<open>pr_body\<close> and \<open>target_section\<close> (default \<open>repository\<close>). The changelog file is named
  by \<open>path\<close>; \<open>read_file\<close> is what the changelog library reads at a path.
\<close>

record args =
  path :: pystr
  pr_body :: pystr
  target_section :: pystr

definition parse_args :: "pystr option \<Rightarrow> pystr \<Rightarrow> pystr option \<Rightarrow> args" where
  \<comment> \<open>the values of \<open>--file\<close>, \<open>--pr-body\<close> (required) and \<open>--target-section\<close>\<close>
  "parse_args file body section =
     \<lparr> path = (case file of None \<Rightarrow> str ''CHANGELOG.md'' | Some f \<Rightarrow> f),
       pr_body = body,
       target_section = (case section of None \<Rightarrow> str ''repository'' | Some t \<Rightarrow> t) \<rparr>"

definition main :: "unicode_db \<Rightarrow> (pystr \<Rightarrow> changelog) \<Rightarrow> args \<Rightarrow> error + changelog" where
  "main db read_file a =
     udpate_changelog_from_pr_body db (read_file (path a)) (pr_body a) (str ''repository'')"

section \<open>Notions used in the statements\<close>

text \<open>
  What one line of a changelog section, or of a pull request body, records: the name and
  version the script stores for it, or nothing when its pattern does not match.
\<close>


definition item_hook :: "unicode_db \<Rightarrow> pystr \<Rightarrow> (pystr \<times> pystr) option" where
  "item_hook db item =
     map_option (\<lambda>hook_match. (group hook_match 1, group hook_match 2))
       (re_match db changelog_item_regex item)"

definition line_hook :: "unicode_db \<Rightarrow> pystr \<Rightarrow> (pystr \<times> pystr) option" where
  "line_hook db line =
     (case re_match db hook_line_regex (strip line) of
        None \<Rightarrow> None
      | Some hook_line \<Rightarrow>
          map_option (\<lambda>hook_match. (group hook_match 1, group hook_match 3))
            (re_match db hook_label_regex (group hook_line 1)))"

text \<open>
  The lines of a pull request body that the loop of \<open>parse_pull_request_body\<close> matches
  against its patterns: those after a start marker, up to the first end marker after it.
\<close>

fun active_lines :: "pystr list \<Rightarrow> bool \<Rightarrow> pystr list" where
  "active_lines [] skip = []"
| "active_lines (line # lines) skip =
     (if strip line = pr_body_marker_start then active_lines lines False
      else if skip then active_lines lines skip
      else if strip line = pr_body_marker_end then []
      else line # active_lines lines skip)"

text \<open>Storing a list of pairs into a dictionary, one after the other.\<close>

fun record_all :: "('k \<times> 'v) list \<Rightarrow> ('k, 'v) dict \<Rightarrow> ('k, 'v) dict" where
  "record_all [] d = d"
| "record_all ((k, v) # kvs) d = record_all kvs (dict_set d k v)"

text \<open>
  Inputs for the examples: a text made of lines, the line pre-commit.ci writes for an
  updated hook (without the link that follows it), the entry the changelog library
  gives for a released version, and its \<open>unreleased\<close> entry with the given sections.
\<close>

definition unlines :: "pystr list \<Rightarrow> pystr" where
  "unlines ls = concat (map (\<lambda>l. l @ [10]) ls)"

definition pr_line :: "string \<Rightarrow> string \<Rightarrow> string \<Rightarrow> pystr" where
  "pr_line repo old new =
     str ''- [github.com/'' @ str repo @ str '': '' @ str old @ [32, arrow, 32] @ str new @ str '']''"

definition release :: "pystr \<Rightarrow> pystr \<times> entry" where
  "release v =
     (v, [(str ''metadata'', Metadata [(str ''version'', Some v), (str ''release_date'', None)])])"

definition unreleased_with :: "(pystr, pystr list) dict \<Rightarrow> pystr \<times> entry" where
  "unreleased_with secs =
     (str ''unreleased'',
      (str ''metadata'',
       Metadata [(str ''version'', Some (str ''unreleased'')), (str ''release_date'', None)])
      # map (\<lambda>(name, items). (name, Lines items)) secs)"

section \<open>Properties\<close>

subsection \<open>Errors and dictionaries\<close>

lemma bind_Inr_iff: "bind m f = Inr y \<longleftrightarrow> (\<exists>x. m = Inr x \<and> f x = Inr y)"
  by (cases m) (simp_all add: bind_def)

lemma bind_Inr [simp]: "bind (Inr x) f = f x"
  by (simp add: bind_def)

lemma bind_Inl [simp]: "bind (Inl e) f = Inl e"
  by (simp add: bind_def)

lemma map_of_dict_set: "map_of (dict_set d k v) = (map_of d)(k \<mapsto> v)"
  by (induction d k v rule: dict_set.induct) auto

lemma keys_dict_set: "set (keys (dict_set d k v)) = insert k (set (keys d))"
  by (induction d k v rule: dict_set.induct) (auto simp: keys_def)

lemma distinct_dict_set: "distinct (keys d) \<Longrightarrow> distinct (keys (dict_set d k v))"
proof (induction d k v rule: dict_set.induct)
  case (1 k v)
  then show ?case by (simp add: keys_def)
next
  case (2 k' v' d k v)
  have "set (map fst (dict_set d k v)) = insert k (set (map fst d))"
    using keys_dict_set [of d k v] by (simp add: keys_def)
  with 2 show ?case by (auto simp: keys_def)
qed

lemma distinct_record_all: "distinct (keys d) \<Longrightarrow> distinct (keys (record_all kvs d))"
  by (induction kvs d rule: record_all.induct) (simp_all add: distinct_dict_set)

lemma map_of_record_all_last:
  "(\<forall>v'. (k, v') \<notin> set post) \<Longrightarrow> map_of (record_all (pre @ (k, v) # post) d) k = Some v"
proof (induction pre arbitrary: d)
  case Nil
  have "map_of (record_all post d') k = map_of d' k" for d'
    using Nil
  proof (induction post arbitrary: d')
    case Nil
    then show ?case by simp
  next
    case (Cons p post)
    obtain k' v' where p: "p = (k', v')" by (cases p)
    with Cons.prems have "k' \<noteq> k" by auto
    with Cons p show ?case by (simp add: map_of_dict_set)
  qed
  then show ?case by (simp add: map_of_dict_set)
next
  case (Cons p pre)
  then show ?case by (cases p) simp
qed

subsection \<open>The two parsing loops\<close>

lemma parse_items_record_all:
  "parse_items db items (content, d)
     = (content @ filter (\<lambda>item. item \<noteq> [] \<and> item_hook db item = None) items,
        record_all (List.map_filter (item_hook db) items) d)"
  by (induction items arbitrary: content d)
     (auto simp: item_hook_def List.map_filter_simps split: option.splits)

lemma parse_lines_record_all:
  "parse_lines db lines skip d
     = record_all (List.map_filter (line_hook db) (active_lines lines skip)) d"
  by (induction lines arbitrary: skip d)
     (auto simp: line_hook_def List.map_filter_simps split: option.splits)

lemma map_filter_append: "List.map_filter f (xs @ ys) = List.map_filter f xs @ List.map_filter f ys"
  by (simp add: List.map_filter_def)

lemma hooks_of_split:
  assumes "f line = Some (name, version)"
    and "\<forall>l \<in> set post. \<forall>v. f l \<noteq> Some (name, v)"
  shows "\<exists>post'. List.map_filter f (pre @ line # post) = List.map_filter f pre @ (name, version) # post'
           \<and> (\<forall>v'. (name, v') \<notin> set post')"
proof -
  have "\<forall>v'. (name, v') \<notin> set (List.map_filter f post)"
    using assms(2) by (auto simp: List.map_filter_def)
  with assms(1) show ?thesis
    by (simp add: map_filter_append List.map_filter_simps)
qed

lemma markers_differ: "pr_body_marker_start \<noteq> pr_body_marker_end"
  by (simp add: pr_body_marker_start_def pr_body_marker_end_def str_def)

lemma parse_lines_before_start:
  "\<forall>l \<in> set pre. strip l \<noteq> pr_body_marker_start \<Longrightarrow> strip start = pr_body_marker_start
   \<Longrightarrow> parse_lines db (pre @ start # lines) True d = parse_lines db lines False d"
  by (induction pre) simp_all

lemma parse_lines_after_end:
  "strip end = pr_body_marker_end
   \<Longrightarrow> parse_lines db (mid @ end # post) False d = parse_lines db mid False d"
proof (induction mid arbitrary: d)
  case Nil
  then show ?case using markers_differ by simp
next
  case (Cons l mid)
  then show ?case by (simp split: option.splits)
qed

subsection \<open>The merging loop\<close>

lemma startswith_refl: "startswith s s"
  by (induction s) simp_all

lemma contains_refl: "contains a a"
  by (cases a) (simp_all add: startswith_refl)

lemma map_of_None_keys: "map_of d k = None \<longleftrightarrow> k \<notin> set (keys d)"
  by (simp add: keys_def map_of_eq_None_iff)

lemma merge_hooks_keeps:
  "map_of N k = Some v \<Longrightarrow> map_of (merge_hooks db P N) k = Some v"
proof (induction P arbitrary: N)
  case Nil
  then show ?case by simp
next
  case (Cons p P)
  obtain h ver where p: "p = (h, ver)" by (cases p)
  show ?case
  proof (cases "list_ex (\<lambda>new_hook. contains (lower db h) (lower db new_hook)) (keys N)")
    case True
    with Cons p show ?thesis by simp
  next
    case False
    have "k \<in> set (keys N)"
      using Cons.prems map_of_None_keys [of N k] by auto
    with False have "h \<noteq> k"
      using contains_refl [of "lower db k"] by (auto simp: list_ex_iff)
    with Cons.prems have "map_of (dict_set N h ver) k = Some v"
      by (simp add: map_of_dict_set)
    with Cons.IH False p show ?thesis by simp
  qed
qed

lemma merge_hooks_drops:
  "h \<notin> set (keys N) \<Longrightarrow> \<exists>k \<in> set (keys N). contains (lower db h) (lower db k)
   \<Longrightarrow> h \<notin> set (keys (merge_hooks db P N))"
proof (induction P arbitrary: N)
  case Nil
  then show ?case by simp
next
  case (Cons p P)
  obtain h' ver where p: "p = (h', ver)" by (cases p)
  show ?case
  proof (cases "list_ex (\<lambda>new_hook. contains (lower db h') (lower db new_hook)) (keys N)")
    case True
    with Cons p show ?thesis by simp
  next
    case False
    with Cons.prems(2) have "h' \<noteq> h" by (auto simp: list_ex_iff)
    with Cons.prems have "h \<notin> set (keys (dict_set N h' ver))"
      and "\<exists>k \<in> set (keys (dict_set N h' ver)). contains (lower db h) (lower db k)"
      by (auto simp: keys_dict_set)
    from Cons.IH [OF this] False p show ?thesis by simp
  qed
qed

lemma merge_hooks_append:
  "merge_hooks db (P @ Q) N = merge_hooks db Q (merge_hooks db P N)"
proof (induction P arbitrary: N)
  case Nil
  show ?case by simp
next
  case (Cons p P)
  obtain h ver where p: "p = (h, ver)" by (cases p)
  define N' where
    "N' = (if \<not> list_ex (\<lambda>new_hook. contains (lower db h) (lower db new_hook)) (keys N)
           then dict_set N h ver else N)"
  have "merge_hooks db ((p # P) @ Q) N = merge_hooks db (P @ Q) N'"
    unfolding p N'_def append_Cons merge_hooks.simps ..
  also have "\<dots> = merge_hooks db Q (merge_hooks db P N')"
    by (rule Cons.IH)
  also have "merge_hooks db P N' = merge_hooks db (p # P) N"
    unfolding p N'_def merge_hooks.simps ..
  finally show ?case .
qed

lemma keys_merge_hooks:
  "set (keys (merge_hooks db P N)) \<subseteq> set (keys N) \<union> set (keys P)"
proof (induction P arbitrary: N)
  case Nil
  show ?case by simp
next
  case (Cons p P)
  obtain h ver where p: "p = (h, ver)" by (cases p)
  define N' where
    "N' = (if \<not> list_ex (\<lambda>new_hook. contains (lower db h) (lower db new_hook)) (keys N)
           then dict_set N h ver else N)"
  have a: "set (keys N') \<subseteq> insert h (set (keys N))"
    unfolding N'_def by (auto simp: keys_dict_set)
  have b: "set (keys (p # P)) = insert h (set (keys P))"
    unfolding p keys_def by simp
  have c: "set (keys (merge_hooks db P N')) \<subseteq> set (keys N') \<union> set (keys P)"
    by (rule Cons.IH)
  have d: "merge_hooks db (p # P) N = merge_hooks db P N'"
    unfolding p N'_def merge_hooks.simps ..
  from a c have "set (keys (merge_hooks db P N')) \<subseteq> set (keys N) \<union> insert h (set (keys P))"
    by blast
  then show ?case unfolding d b .
qed

text \<open>
  A name of the prior record is carried forward, with its version, when its lower-cased form
  is a substring of no lower-cased name of the pull request record and of no lower-cased name
  that stands before it in the prior record.
\<close>

lemma merge_hooks_carries:
  assumes "\<forall>k \<in> set (keys N) \<union> set (keys earlier). \<not> contains (lower db h) (lower db k)"
  shows "map_of (merge_hooks db (earlier @ (h, v) # later) N) h = Some v"
proof -
  define M where "M = merge_hooks db earlier N"
  have "set (keys M) \<subseteq> set (keys N) \<union> set (keys earlier)"
    unfolding M_def by (rule keys_merge_hooks)
  with assms have n: "\<not> list_ex (\<lambda>new_hook. contains (lower db h) (lower db new_hook)) (keys M)"
    unfolding list_ex_iff by blast
  have "merge_hooks db ((h, v) # later) M = merge_hooks db later (dict_set M h v)"
    unfolding merge_hooks.simps using n by simp
  moreover have "map_of (dict_set M h v) h = Some v"
    by (simp add: map_of_dict_set)
  then have "map_of (merge_hooks db later (dict_set M h v)) h = Some v"
    by (rule merge_hooks_keeps)
  moreover have "merge_hooks db (earlier @ (h, v) # later) N = merge_hooks db ((h, v) # later) M"
    unfolding M_def by (rule merge_hooks_append)
  ultimately show ?thesis by simp
qed

subsection \<open>Sorting the versions\<close>

lemma traverse_Inr:
  "\<forall>x \<in> set xs. \<exists>y. f x = Inr y \<Longrightarrow> traverse f xs = Inr (map (\<lambda>x. projr (f x)) xs)"
  by (induction xs) auto

lemma traverse_str_value: "traverse str_value (map Some versions) = Inr versions"
  by (induction versions) (simp_all add: str_value_def)

lemma to_semantic_unreleased: "to_semantic (str ''unreleased'') = Inl (InvalidSemanticVersion (str ''unreleased''))"
  by code_simp

lemma to_sorted_semantic_Inr:
  assumes "\<forall>v \<in> set vs. \<exists>k. to_semantic v = Inr k"
  shows "to_sorted_semantic vs = Inr (sort_key snd (map (\<lambda>v. (v, projr (to_semantic v))) vs))"
proof -
  have "v \<noteq> str ''unreleased''" if "v \<in> set vs" for v
    using assms that to_semantic_unreleased by auto
  then have f: "filter (\<lambda>v. v \<noteq> str ''unreleased'') vs = vs"
    by (simp add: filter_id_conv)
  have "\<forall>v \<in> set vs. \<exists>y. bind (to_semantic v) (\<lambda>k. Inr (v, k)) = Inr y"
    using assms by auto
  from traverse_Inr [OF this]
  have "traverse (\<lambda>v. bind (to_semantic v) (\<lambda>k. Inr (v, k))) vs
          = Inr (map (\<lambda>v. projr (bind (to_semantic v) (\<lambda>k. Inr (v, k)))) vs)" .
  moreover have "map (\<lambda>v. projr (bind (to_semantic v) (\<lambda>k. Inr (v, k)))) vs
                   = map (\<lambda>v. (v, projr (to_semantic v))) vs"
    using assms by (auto simp: map_eq_conv)
  ultimately show ?thesis
    by (simp add: to_sorted_semantic_def f)
qed

lemma sorted_last_greatest:
  "sorted (map f xs) \<Longrightarrow> x \<in> set xs \<Longrightarrow> f x \<le> f (last xs)"
proof (induction xs)
  case Nil
  then show ?case by simp
next
  case (Cons a xs)
  then show ?case by (cases "xs = []") auto
qed

lemma contains_clean: "contains (clean_version_str v) v"
proof (cases v)
  case Nil
  then show ?thesis by (simp add: clean_version_str_def)
next
  case (Cons c cs)
  then show ?thesis
    using contains_refl [of cs] contains_refl [of "c # cs"]
    by (simp add: clean_version_str_def del: contains.simps) (simp)
qed

subsection \<open>Cleaning a version string\<close>

text \<open>
  C7. A version string that begins with neither \<open>v\<close> nor \<open>V\<close> is returned as it is;
  one that begins with \<open>v\<close> or \<open>V\<close> loses exactly its first character, the rest being
  kept; so cleaning a string that is already clean changes nothing, however often it is
  done.
\<close>

theorem clean_version_str_spec:
  "(\<not> (startswith version (str ''v'') \<or> startswith version (str ''V''))
      \<longrightarrow> clean_version_str version = version
          \<and> clean_version_str (clean_version_str version) = clean_version_str version)
   \<and> (startswith version (str ''v'') \<or> startswith version (str ''V'')
      \<longrightarrow> (\<exists>c. (c = of_char CHR ''v'' \<or> c = of_char CHR ''V'')
               \<and> version = c # clean_version_str version))"
  by (cases version) (auto simp: clean_version_str_def str_def)

theorem clean_version_str_spec_witness:
  "clean_version_str (str ''1.2.3'') = str ''1.2.3''
   \<and> clean_version_str (clean_version_str (str ''1.2.3'')) = clean_version_str (str ''1.2.3'')
   \<and> str ''v1.2.3'' = of_char CHR ''v'' # clean_version_str (str ''v1.2.3'')
   \<and> str ''V1.2.3'' = of_char CHR ''V'' # clean_version_str (str ''V1.2.3'')"
  using clean_version_str_spec [of "str ''1.2.3''"] clean_version_str_spec [of "str ''v1.2.3''"]
    clean_version_str_spec [of "str ''V1.2.3''"]
  by (simp add: str_def)

subsection \<open>Loading a changelog without versions\<close>

text \<open>
  C8. Loading a changelog that has no \<open>unreleased\<close> entry and no versioned entry
  fails: the sorted list of versions is empty, and taking its last element raises
  \<open>IndexError\<close>. The empty changelog is the instance.
\<close>

theorem get_changelog_no_versions:
  "str ''unreleased'' \<notin> set (keys changelog) \<Longrightarrow> versions_of changelog = Inr []
   \<Longrightarrow> get_changelog changelog = Inl IndexError"
  by (simp add: get_changelog_def to_sorted_semantic_def)

theorem get_changelog_no_versions_witness:
  "str ''unreleased'' \<notin> set (keys ([] :: changelog)) \<and> versions_of [] = Inr []
   \<and> get_changelog [] = Inl IndexError"
  using get_changelog_no_versions [of "[]"]
  by (simp add: keys_def versions_of_def)

subsection \<open>The repository in the synthesized URL\<close>

text \<open>
  C10. Whenever the loader synthesizes an \<open>unreleased\<close> entry, the entry is put in front
  of the changelog as it was read, and its compare URL is
  \<open>https://github.com/Takishima/flake8-secure-coding-standard/compare/\<close>, a version
  name, \<open>...HEAD\<close>: the repository is fixed, whatever the changelog holds; only the
  version name varies.
\<close>

theorem synthesized_url_fixed_repository:
  assumes "str ''unreleased'' \<notin> set (keys changelog)"
    and "get_changelog changelog = Inr changelog'"
  shows "\<exists>version_name e.
           changelog' = (str ''unreleased'', e) # changelog
           \<and> metadata_item e (str ''url'')
               = Inr (Some (str ''https://github.com/Takishima/flake8-secure-coding-standard/compare/''
                              @ version_name @ str ''...HEAD''))"
  using assms
  by (auto simp: get_changelog_def bind_Inr_iff unreleased_entry_def metadata_item_def getitem_def
        compare_url_def str_def)

theorem synthesized_url_fixed_repository_witness:
  "str ''unreleased'' \<notin> set (keys [release (str ''v1.2.0''), release (str ''v1.10.0'')])
   \<and> get_changelog [release (str ''v1.2.0''), release (str ''v1.10.0'')]
       = Inr [(str ''unreleased'', unreleased_entry (str ''v1.10.0'')),
              release (str ''v1.2.0''), release (str ''v1.10.0'')]
   \<and> (\<exists>version_name e.
         [(str ''unreleased'', unreleased_entry (str ''v1.10.0'')),
          release (str ''v1.2.0''), release (str ''v1.10.0'')]
           = (str ''unreleased'', e) # [release (str ''v1.2.0''), release (str ''v1.10.0'')]
         \<and> metadata_item e (str ''url'')
             = Inr (Some (str ''https://github.com/Takishima/flake8-secure-coding-standard/compare/''
                            @ version_name @ str ''...HEAD'')))"
proof -
  have h1: "str ''unreleased'' \<notin> set (keys [release (str ''v1.2.0''), release (str ''v1.10.0'')])"
    by code_simp
  have h2: "get_changelog [release (str ''v1.2.0''), release (str ''v1.10.0'')]
       = Inr [(str ''unreleased'', unreleased_entry (str ''v1.10.0'')),
              release (str ''v1.2.0''), release (str ''v1.10.0'')]"
    by code_simp
  from synthesized_url_fixed_repository [OF h1 h2] h1 h2 show ?thesis by blast
qed

subsection \<open>Lines that record the same name\<close>

text \<open>
  C9. In the parser of a changelog section and in the parser of the pull request body, the
  resulting dictionary has every name at most once, and when several recognized lines
  record the same name, the dictionary holds the version of the last of them: if a line
  records \<open>name\<close> with \<open>version\<close> and no later line records \<open>name\<close>, the
  dictionary maps \<open>name\<close> to \<open>version\<close>, whatever the earlier lines record.
\<close>

theorem last_line_wins:
  "distinct (keys (snd (parse_items db items ([], []))))
   \<and> distinct (keys (parse_pull_request_body db body))
   \<and> (items = pre @ item # post \<and> item_hook db item = Some (name, version)
       \<and> (\<forall>l \<in> set post. \<forall>v. item_hook db l \<noteq> Some (name, v))
      \<longrightarrow> map_of (snd (parse_items db items ([], []))) name = Some version)
   \<and> (active_lines (splitlines body) True = pre' @ line # post'
       \<and> line_hook db line = Some (name', version')
       \<and> (\<forall>l \<in> set post'. \<forall>v. line_hook db l \<noteq> Some (name', v))
      \<longrightarrow> map_of (parse_pull_request_body db body) name' = Some version')"
proof -
  have e: "distinct (keys ([] :: (pystr, pystr) dict))"
    by (simp add: keys_def)
  have a: "distinct (keys (snd (parse_items db items ([], []))))"
    using e by (simp add: parse_items_record_all distinct_record_all)
  have b: "distinct (keys (parse_pull_request_body db body))"
    using e by (simp add: parse_pull_request_body_def parse_lines_record_all distinct_record_all)
  have c: "map_of (snd (parse_items db items ([], []))) name = Some version"
    if "items = pre @ item # post" "item_hook db item = Some (name, version)"
      "\<forall>l \<in> set post. \<forall>v. item_hook db l \<noteq> Some (name, v)"
  proof -
    from hooks_of_split [OF that(2) that(3), of pre] obtain ys where
      "List.map_filter (item_hook db) (pre @ item # post)
         = List.map_filter (item_hook db) pre @ (name, version) # ys"
      "\<forall>v'. (name, v') \<notin> set ys"
      by blast
    then show ?thesis
      by (simp add: that(1) parse_items_record_all map_of_record_all_last)
  qed
  have d: "map_of (parse_pull_request_body db body) name' = Some version'"
    if "active_lines (splitlines body) True = pre' @ line # post'"
      "line_hook db line = Some (name', version')"
      "\<forall>l \<in> set post'. \<forall>v. line_hook db l \<noteq> Some (name', v)"
  proof -
    from hooks_of_split [OF that(2) that(3), of pre'] obtain ys where
      "List.map_filter (line_hook db) (pre' @ line # post')
         = List.map_filter (line_hook db) pre' @ (name', version') # ys"
      "\<forall>v'. (name', v') \<notin> set ys"
      by blast
    then show ?thesis
      by (simp add: that(1) parse_pull_request_body_def parse_lines_record_all
            map_of_record_all_last)
  qed
  from a b c d show ?thesis by blast
qed

theorem last_line_wins_witness:
  "distinct (keys (snd (parse_items ascii_db
      [str ''- Update `black` hook to v22.1.0'', str ''- Fix a typo'',
       str ''- Update `black` hook to v23.1.0'', str ''- Update `isort` hook to v5.12.0''] ([], []))))
   \<and> map_of (snd (parse_items ascii_db
      [str ''- Update `black` hook to v22.1.0'', str ''- Fix a typo'',
       str ''- Update `black` hook to v23.1.0'', str ''- Update `isort` hook to v5.12.0''] ([], [])))
      (str ''black'') = Some (str ''23.1.0'')
   \<and> distinct (keys (parse_pull_request_body ascii_db
      (unlines [pr_body_marker_start, pr_line ''psf/black'' ''22.1.0'' ''22.3.0'',
                pr_line ''psf/black'' ''22.3.0'' ''23.1.0'',
                pr_line ''PyCQA/isort'' ''5.10.1'' ''5.12.0'', pr_body_marker_end])))
   \<and> map_of (parse_pull_request_body ascii_db
      (unlines [pr_body_marker_start, pr_line ''psf/black'' ''22.1.0'' ''22.3.0'',
                pr_line ''psf/black'' ''22.3.0'' ''23.1.0'',
                pr_line ''PyCQA/isort'' ''5.10.1'' ''5.12.0'', pr_body_marker_end]))
      (str ''psf/black'') = Some (str ''23.1.0'')"
proof -
  let ?items = "[str ''- Update `black` hook to v22.1.0'', str ''- Fix a typo'',
       str ''- Update `black` hook to v23.1.0'', str ''- Update `isort` hook to v5.12.0'']"
  let ?body = "unlines [pr_body_marker_start, pr_line ''psf/black'' ''22.1.0'' ''22.3.0'',
                pr_line ''psf/black'' ''22.3.0'' ''23.1.0'',
                pr_line ''PyCQA/isort'' ''5.10.1'' ''5.12.0'', pr_body_marker_end]"
  have i1: "?items = [str ''- Update `black` hook to v22.1.0'', str ''- Fix a typo'']
              @ str ''- Update `black` hook to v23.1.0'' # [str ''- Update `isort` hook to v5.12.0'']"
    by simp
  have i2: "item_hook ascii_db (str ''- Update `black` hook to v23.1.0'')
              = Some (str ''black'', str ''23.1.0'')"
    by code_simp
  have i3: "\<forall>l \<in> set [str ''- Update `isort` hook to v5.12.0''].
              \<forall>v. item_hook ascii_db l \<noteq> Some (str ''black'', v)"
  proof -
    have "item_hook ascii_db (str ''- Update `isort` hook to v5.12.0'')
            = Some (str ''isort'', str ''5.12.0'')"
      by code_simp
    then show ?thesis by (simp add: str_def)
  qed
  have l1: "active_lines (splitlines ?body) True
              = [pr_line ''psf/black'' ''22.1.0'' ''22.3.0'']
                @ pr_line ''psf/black'' ''22.3.0'' ''23.1.0''
                # [pr_line ''PyCQA/isort'' ''5.10.1'' ''5.12.0'']"
    by code_simp
  have l2: "line_hook ascii_db (pr_line ''psf/black'' ''22.3.0'' ''23.1.0'')
              = Some (str ''psf/black'', str ''23.1.0'')"
    by code_simp
  have l3: "\<forall>l \<in> set [pr_line ''PyCQA/isort'' ''5.10.1'' ''5.12.0''].
              \<forall>v. line_hook ascii_db l \<noteq> Some (str ''psf/black'', v)"
  proof -
    have "line_hook ascii_db (pr_line ''PyCQA/isort'' ''5.10.1'' ''5.12.0'')
            = Some (str ''PyCQA/isort'', str ''5.12.0'')"
      by code_simp
    then show ?thesis by (simp add: str_def)
  qed
  from last_line_wins [of ascii_db ?items ?body
      "[str ''- Update `black` hook to v22.1.0'', str ''- Fix a typo'']"
      "str ''- Update `black` hook to v23.1.0''" "[str ''- Update `isort` hook to v5.12.0'']"
      "str ''black''" "str ''23.1.0''"
      "[pr_line ''psf/black'' ''22.1.0'' ''22.3.0'']"
      "pr_line ''psf/black'' ''22.3.0'' ''23.1.0''"
      "[pr_line ''PyCQA/isort'' ''5.10.1'' ''5.12.0'']"
      "str ''psf/black''" "str ''23.1.0''"]
    i1 i2 i3 l1 l2 l3
  show ?thesis by blast
qed

subsection \<open>Text outside the markers\<close>

text \<open>
  C6. Two pull request bodies with the same lines between the start marker line (the first
  line that is the start marker once stripped) and the end marker line give the same
  dictionary, whatever stands before the start marker and after the end marker; the
  dictionary is the one the lines between the markers give alone, so an update line
  outside the markers adds no entry.
\<close>

theorem outside_markers_ignored:
  assumes "splitlines body1 = pre1 @ start1 # mid @ end1 # post1"
    and "splitlines body2 = pre2 @ start2 # mid @ end2 # post2"
    and "\<forall>l \<in> set pre1 \<union> set pre2. strip l \<noteq> pr_body_marker_start"
    and "strip start1 = pr_body_marker_start" and "strip start2 = pr_body_marker_start"
    and "strip end1 = pr_body_marker_end" and "strip end2 = pr_body_marker_end"
  shows "parse_pull_request_body db body1 = parse_pull_request_body db body2
         \<and> parse_pull_request_body db body1 = parse_lines db mid False []"
proof -
  have "parse_pull_request_body db body1 = parse_lines db (mid @ end1 # post1) False []"
    using assms(1,3,4) by (simp add: parse_pull_request_body_def parse_lines_before_start)
  moreover have "parse_pull_request_body db body2 = parse_lines db (mid @ end2 # post2) False []"
    using assms(2,3,5) by (simp add: parse_pull_request_body_def parse_lines_before_start)
  ultimately show ?thesis
    using assms(6,7) by (simp add: parse_lines_after_end)
qed

theorem outside_markers_ignored_witness:
  "parse_pull_request_body ascii_db
     (unlines [pr_line ''PyCQA/isort'' ''5.10.1'' ''5.12.0'', pr_body_marker_start,
               pr_line ''psf/black'' ''22.3.0'' ''23.1.0'', pr_body_marker_end,
               pr_line ''PyCQA/flake8'' ''5.0.4'' ''6.0.0''])
   = parse_pull_request_body ascii_db
     (unlines [str ''updates:'', str ''  '' @ pr_body_marker_start,
               pr_line ''psf/black'' ''22.3.0'' ''23.1.0'', pr_body_marker_end])
   \<and> parse_pull_request_body ascii_db
     (unlines [pr_line ''PyCQA/isort'' ''5.10.1'' ''5.12.0'', pr_body_marker_start,
               pr_line ''psf/black'' ''22.3.0'' ''23.1.0'', pr_body_marker_end,
               pr_line ''PyCQA/flake8'' ''5.0.4'' ''6.0.0''])
   = [(str ''psf/black'', str ''23.1.0'')]"
proof -
  let ?isort = "pr_line ''PyCQA/isort'' ''5.10.1'' ''5.12.0''"
  let ?black = "pr_line ''psf/black'' ''22.3.0'' ''23.1.0''"
  let ?flake8 = "pr_line ''PyCQA/flake8'' ''5.0.4'' ''6.0.0''"
  let ?body1 = "unlines [?isort, pr_body_marker_start, ?black, pr_body_marker_end, ?flake8]"
  let ?body2 = "unlines [str ''updates:'', str ''  '' @ pr_body_marker_start, ?black,
                         pr_body_marker_end]"
  have s1: "splitlines ?body1
      = [?isort] @ pr_body_marker_start # [?black] @ pr_body_marker_end # [?flake8]"
    by code_simp
  have s2: "splitlines ?body2
      = [str ''updates:''] @ (str ''  '' @ pr_body_marker_start) # [?black]
        @ pr_body_marker_end # []"
    by code_simp
  have p: "\<forall>l \<in> set [?isort] \<union> set [str ''updates:'']. strip l \<noteq> pr_body_marker_start"
    by code_simp
  have m1: "strip pr_body_marker_start = pr_body_marker_start"
    and m2: "strip (str ''  '' @ pr_body_marker_start) = pr_body_marker_start"
    and m3: "strip pr_body_marker_end = pr_body_marker_end"
    by code_simp+
  have r: "parse_lines ascii_db [?black] False [] = [(str ''psf/black'', str ''23.1.0'')]"
    by code_simp
  from outside_markers_ignored [OF s1 s2 p m1 m2 m3 m3, of ascii_db]
  have "parse_pull_request_body ascii_db ?body1 = parse_pull_request_body ascii_db ?body2
        \<and> parse_pull_request_body ascii_db ?body1 = parse_lines ascii_db [?black] False []" .
  with r show ?thesis by metis
qed

subsection \<open>Which version the merged record holds\<close>

text \<open>
  C2 fails on the script: a name of the prior record whose lower-cased form is a substring of
  no lower-cased name of the pull request record is not always carried forward. The loop
  tests each prior name against \<open>new_hook_data\<close> while it adds the prior names to it, so
  the test also runs over the prior names carried forward so far. With the prior record
  \<open>flake8-bugbear\<close>, \<open>flake8\<close> and the pull request record \<open>psf/black\<close>, the name
  \<open>flake8\<close> is a substring of no name of the pull request record, and the merged record has
  lost it, because \<open>flake8-bugbear\<close> was carried forward before it. With the two prior
  names in the other order both are carried forward. The changelog that
  \<open>udpate_changelog_from_pr_body\<close> hands over for that prior section has no line for
  \<open>flake8\<close>.
\<close>

theorem merge_loses_prior_hook:
  "map_of [(str ''flake8-bugbear'', str ''22.1.11''), (str ''flake8'', str ''4.0.1'')]
      (str ''flake8'') = Some (str ''4.0.1'')
   \<and> \<not> list_ex (\<lambda>new_hook. contains (lower db (str ''flake8'')) (lower db new_hook))
          (keys [(str ''psf/black'', str ''23.1.0'')])
   \<and> merge_hooks db
        [(str ''flake8-bugbear'', str ''22.1.11''), (str ''flake8'', str ''4.0.1'')]
        [(str ''psf/black'', str ''23.1.0'')]
      = [(str ''psf/black'', str ''23.1.0''), (str ''flake8-bugbear'', str ''22.1.11'')]
   \<and> map_of (merge_hooks db
        [(str ''flake8-bugbear'', str ''22.1.11''), (str ''flake8'', str ''4.0.1'')]
        [(str ''psf/black'', str ''23.1.0'')]) (str ''flake8'') = None
   \<and> merge_hooks db
        [(str ''flake8'', str ''4.0.1''), (str ''flake8-bugbear'', str ''22.1.11'')]
        [(str ''psf/black'', str ''23.1.0'')]
      = [(str ''psf/black'', str ''23.1.0''), (str ''flake8'', str ''4.0.1''),
         (str ''flake8-bugbear'', str ''22.1.11'')]
   \<and> udpate_changelog_from_pr_body db
        [unreleased_with
           [(str ''repository'',
             [str ''- Update `flake8-bugbear` hook to v22.1.11'',
              str ''- Update `flake8` hook to v4.0.1''])],
         release (str ''1.0.0'')]
        (unlines [pr_body_marker_start, pr_line ''psf/black'' ''22.1.0'' ''23.1.0'',
                  pr_body_marker_end])
        (str ''repository'')
      = Inr [unreleased_with
               [(str ''repository'',
                 [str ''-   Update `flake8-bugbear` hook to v22.1.11'',
                  str ''-   Update `psf/black` hook to v23.1.0''])],
             release (str ''1.0.0'')]"
  by code_simp

subsection \<open>The order of the generated lines\<close>

text \<open>
  C5, as the script has it. The generated lines are one for each name of the merged record,
  the names put in ascending order of their lower-cased forms; the order is strict when no
  two names have the same lower-cased form.
\<close>

theorem update_lines_ordered:
  "\<exists>names. update_lines db d = map (\<lambda>hook_name. update_line hook_name (the_value d hook_name)) names
     \<and> mset names = mset (keys d)
     \<and> sorted (map (lower db) names)
     \<and> (distinct (map (lower db) (keys d)) \<longrightarrow> sorted_wrt (<) (map (lower db) names))"
proof -
  let ?names = "sort_key (lower db) (keys d)"
  have m: "mset ?names = mset (keys d)" by simp
  have s: "sorted (map (lower db) ?names)" by (rule sorted_sort_key)
  have "distinct (map (lower db) ?names)" if "distinct (map (lower db) (keys d))"
  proof -
    have "mset (map (lower db) ?names) = mset (map (lower db) (keys d))"
      using m by (metis mset_map)
    from mset_eq_imp_distinct_iff [OF this] that show ?thesis by simp
  qed
  with s have "distinct (map (lower db) (keys d)) \<longrightarrow> sorted_wrt (<) (map (lower db) ?names)"
    by (simp add: strict_sorted_iff)
  with m s show ?thesis
    unfolding update_lines_def by blast
qed

theorem update_lines_ordered_witness:
  "distinct (map (lower ascii_db)
      (keys [(str ''psf/black'', str ''23.1.0''), (str ''PyCQA/isort'', str ''5.12.0''),
             (str ''asottile/pyupgrade'', str ''3.3.1'')]))
   \<and> (\<exists>names.
        update_lines ascii_db
          [(str ''psf/black'', str ''23.1.0''), (str ''PyCQA/isort'', str ''5.12.0''),
           (str ''asottile/pyupgrade'', str ''3.3.1'')]
          = map (\<lambda>hook_name. update_line hook_name
                  (the_value [(str ''psf/black'', str ''23.1.0''), (str ''PyCQA/isort'', str ''5.12.0''),
                              (str ''asottile/pyupgrade'', str ''3.3.1'')] hook_name)) names
        \<and> sorted_wrt (<) (map (lower ascii_db) names))
   \<and> update_lines ascii_db
        [(str ''psf/black'', str ''23.1.0''), (str ''PyCQA/isort'', str ''5.12.0''),
         (str ''asottile/pyupgrade'', str ''3.3.1'')]
      = [str ''-   Update `asottile/pyupgrade` hook to v3.3.1'',
         str ''-   Update `psf/black` hook to v23.1.0'',
         str ''-   Update `PyCQA/isort` hook to v5.12.0'']"
proof -
  let ?d = "[(str ''psf/black'', str ''23.1.0''), (str ''PyCQA/isort'', str ''5.12.0''),
             (str ''asottile/pyupgrade'', str ''3.3.1'')]"
  have a: "distinct (map (lower ascii_db) (keys ?d))"
    by code_simp
  have b: "update_lines ascii_db ?d
      = [str ''-   Update `asottile/pyupgrade` hook to v3.3.1'',
         str ''-   Update `psf/black` hook to v23.1.0'',
         str ''-   Update `PyCQA/isort` hook to v5.12.0'']"
    by code_simp
  from update_lines_ordered [of ascii_db ?d] a b show ?thesis by blast
qed

text \<open>
  The order is not always strict: a pull request body that names \<open>psf/Black\<close> and
  \<open>psf/black\<close> gives a record with both, and two lines whose names have the same
  lower-cased form.
\<close>

theorem update_lines_ordered_counterexample:
  "parse_pull_request_body ascii_db
     (unlines [pr_body_marker_start, pr_line ''psf/Black'' ''22.1.0'' ''23.1.0'',
               pr_line ''psf/black'' ''22.1.0'' ''23.3.0'', pr_body_marker_end])
     = [(str ''psf/Black'', str ''23.1.0''), (str ''psf/black'', str ''23.3.0'')]
   \<and> merge_hooks ascii_db []
        [(str ''psf/Black'', str ''23.1.0''), (str ''psf/black'', str ''23.3.0'')]
     = [(str ''psf/Black'', str ''23.1.0''), (str ''psf/black'', str ''23.3.0'')]
   \<and> update_lines ascii_db
        [(str ''psf/Black'', str ''23.1.0''), (str ''psf/black'', str ''23.3.0'')]
     = [str ''-   Update `psf/Black` hook to v23.1.0'',
        str ''-   Update `psf/black` hook to v23.3.0'']
   \<and> \<not> lower ascii_db (str ''psf/Black'') < lower ascii_db (str ''psf/black'')"
  by code_simp

subsection \<open>The target section of the command line\<close>

text \<open>
  C1 fails on the script: \<open>main\<close> reads \<open>--target-section\<close> and then calls
  \<open>udpate_changelog_from_pr_body\<close> with the literal \<open>repository\<close>. With
  \<open>--target-section added\<close> the \<open>added\<close> section is left as it was and the update line
  goes to a new \<open>repository\<close> section, where the function called with \<open>added\<close> rewrites
  the \<open>added\<close> section.
\<close>

theorem main_ignores_target_section:
  "main db
     (\<lambda>p. [unreleased_with [(str ''added'', [str ''- Update `black` hook to v22.1.0''])],
            release (str ''1.0.0'')])
     (parse_args None
        (unlines [pr_body_marker_start, pr_line ''psf/black'' ''22.1.0'' ''23.1.0'',
                  pr_body_marker_end])
        (Some (str ''added'')))
   = Inr [unreleased_with
            [(str ''added'', [str ''- Update `black` hook to v22.1.0'']),
             (str ''repository'', [str ''-   Update `psf/black` hook to v23.1.0''])],
          release (str ''1.0.0'')]
   \<and> udpate_changelog_from_pr_body db
       [unreleased_with [(str ''added'', [str ''- Update `black` hook to v22.1.0''])],
        release (str ''1.0.0'')]
       (unlines [pr_body_marker_start, pr_line ''psf/black'' ''22.1.0'' ''23.1.0'',
                 pr_body_marker_end])
       (str ''added'')
   = Inr [unreleased_with [(str ''added'', [str ''-   Update `psf/black` hook to v23.1.0''])],
          release (str ''1.0.0'')]"
  by code_simp

subsection \<open>The example with \<open>black\<close>\<close>

text \<open>
  C3, as the script has it. With \<open>- Update `black` hook to v22.1.0\<close> in the
  \<open>repository\<close> section and the line
  \<open>- [ ] [psf/black.github.io/path: v22.1.0 \<rightarrow> v23.0.0]\<close> between the markers, the
  pull request line is not recognized (its label, which runs to the last \<open>]\<close>, does not
  begin with a host name), and the section ends with the one generated line
  \<open>-   Update `black` hook to v22.1.0\<close>. With the line
  \<open>- [github.com/psf/black: v22.1.0 \<rightarrow> v23.0.0]\<close> the section ends with the one
  generated line \<open>-   Update `psf/black` hook to v23.0.0\<close>, and no line for \<open>black\<close>.
\<close>

theorem black_example:
  "parse_pull_request_body db
     (unlines [pr_body_marker_start,
               str ''- [ ] [psf/black.github.io/path: v22.1.0 '' @ [arrow] @ str '' v23.0.0]'',
               pr_body_marker_end]) = []
   \<and> udpate_changelog_from_pr_body db
     [unreleased_with [(str ''repository'', [str ''- Update `black` hook to v22.1.0''])]]
     (unlines [pr_body_marker_start,
               str ''- [ ] [psf/black.github.io/path: v22.1.0 '' @ [arrow] @ str '' v23.0.0]'',
               pr_body_marker_end])
     (str ''repository'')
   = Inr [unreleased_with [(str ''repository'', [str ''-   Update `black` hook to v22.1.0''])]]
   \<and> udpate_changelog_from_pr_body db
     [unreleased_with [(str ''repository'', [str ''- Update `black` hook to v22.1.0''])]]
     (unlines [pr_body_marker_start,
               str ''- [github.com/psf/black: v22.1.0 '' @ [arrow] @ str '' v23.0.0]'',
               pr_body_marker_end])
     (str ''repository'')
   = Inr [unreleased_with [(str ''repository'', [str ''-   Update `psf/black` hook to v23.0.0''])]]"
  by code_simp

text \<open>On the input of the claim the section is not the one the claim gives.\<close>

theorem black_example_counterexample:
  "udpate_changelog_from_pr_body ascii_db
     [unreleased_with [(str ''repository'', [str ''- Update `black` hook to v22.1.0''])]]
     (unlines [pr_body_marker_start,
               str ''- [ ] [psf/black.github.io/path: v22.1.0 '' @ [arrow] @ str '' v23.0.0]'',
               pr_body_marker_end])
     (str ''repository'')
   = Inr [unreleased_with [(str ''repository'', [str ''-   Update `black` hook to v22.1.0''])]]
   \<and> [str ''-   Update `black` hook to v22.1.0'']
       \<noteq> [str ''-   Update `psf/black` hook to v23.0.0'']"
  by code_simp

subsection \<open>The version in the synthesized URL\<close>




end
